theory Spec2Isabelle
  imports Main "HOL-Library.Sublist"
begin

section \<open>Values, exceptions and observable events\<close>

text \<open>
  The script \<^verbatim>\<open>src/client/run.py\<close> reads its configuration from the process
  environment, builds a client of a remote service, and makes a handful of calls to
  that service and to the filesystem. Everything outside the script (the environment,
  the service, the filesystem) is a parameter of the model, the record \<open>world\<close>;
  everything the script does to the outside is an \<open>event\<close>, and a function of the
  script is a value of type \<open>'a io\<close>: the events it emits, in order, and how it
  ends (an exception, or a result).
\<close>

text \<open>
  The values a model's metadata can hold. A float is kept as mantissa and binary
  exponent; only its type tag is ever looked at.
\<close>

datatype py_value =
    VNone
  | VBool bool
  | VInt int
  | VFloat int int
  | VStr string
  | VList "py_value list"
  | VDict "(string \<times> py_value) list"

text \<open>The \<^verbatim>\<open>Model\<close> objects returned by \<^verbatim>\<open>client.models.list()\<close>.\<close>

record model =
  model_identifier :: string       \<comment> \<open>model.identifier\<close>
  model_provider_id :: string      \<comment> \<open>model.provider_id\<close>
  model_api_model_type :: string   \<comment> \<open>model.api_model_type\<close>
  model_metadata :: py_value       \<comment> \<open>model.metadata\<close>

text \<open>The \<^verbatim>\<open>RAGDocument\<close> built for one file.\<close>

record document =
  document_id :: string
  content :: string
  mime_type :: string
  meta_filename :: string
  meta_filepath :: string
  meta_file_size :: nat

record client =
  base_url :: string

text \<open>
  The argument of each \<^verbatim>\<open>ValueError\<close> the script can raise, one constructor per
  message of the source; the format arguments of an f-string are the constructor's
  arguments.
\<close>

datatype value_error =
    PortOutOfRange int          \<comment> \<open>Port number {port} is out of valid range (1-65535).\<close>
  | HostEmpty                   \<comment> \<open>Host must be specified and cannot be empty.\<close>
  | ModelIdRequired             \<comment> \<open>Embedding model ID is required\<close>
  | ModelProviderRequired       \<comment> \<open>Embedding model provider is required\<close>
  | ModelNotFound string string \<comment> \<open>Embedding model {id} not found for provider {provider}\<close>
  | VectorDbIdRequired          \<comment> \<open>Vector DB ID is required for registration\<close>
  | ProviderIdRequired          \<comment> \<open>Provider ID is required for vector DB registration\<close>
  | ModelRequired               \<comment> \<open>Embedding model is required for vector DB registration\<close>
  | ModelIdRequiredForDb        \<comment> \<open>Embedding model ID is required for vector DB registration\<close>
  | NotEmbeddingModel           \<comment> \<open>Provided model is not an embedding model\<close>
  | MetadataNotDict             \<comment> \<open>Embedding model metadata must be a dictionary\<close>
  | DimensionBadType            \<comment> \<open>Embedding model metadata 'embedding_dimension' must be a str, int or float\<close>
  | MustBeSet string            \<comment> \<open>{NAME} environment variable must be set\<close>
  | NegativeDelay               \<comment> \<open>Delay must be a positive integer\<close>
  | IntError string             \<comment> \<open>the ValueError that int(s) raises, for the text s: invalid literal
                                   for int() with base 10, or Exceeds the limit (4300 digits)\<close>

text \<open>
  Exceptions. \<open>OtherError\<close> stands for any further exception class (a failure of the
  remote service or of the filesystem), told apart by a tag.
\<close>

datatype exn =
    ValueError value_error
  | KeyError string
  | TypeError
  | OtherError nat

text \<open>The lines the script prints, one constructor per \<^verbatim>\<open>print\<close> of the source.\<close>

datatype message =
    MsgCreatingClient string        \<comment> \<open>Creating LlamaStack client with base URL: {url}\<close>
  | MsgRegistering string string py_value
  | MsgRegistered string
  | MsgFolderMissing string         \<comment> \<open>Warning: Folder {folder_path} does not exist\<close>
  | MsgLoadingFrom string
  | MsgLoaded string
  | MsgErrorReading string exn
  | MsgLoadedCount nat              \<comment> \<open>Successfully loaded {len(documents)} documents\<close>
  | MsgNoDocuments                  \<comment> \<open>No documents to insert\<close>
  | MsgInsertedCount nat
  | MsgInvalidDelay string exn
  | MsgDelayInfo int                \<comment> \<open>Delaying for {delay_seconds} seconds if task fails\<close>
  | MsgDebugHeader
  | MsgDebugHost string
  | MsgDebugPort string
  | MsgDebugSecure bool
  | MsgConnected string string
  | MsgUsingModel string py_value
  | MsgDone string int              \<comment> \<open>Documents inserted into the vector database {id} with chunk size in tokens {n}\<close>
  | MsgError exn                    \<comment> \<open>Error: {e}\<close>
  | MsgDelaying int                 \<comment> \<open>Delaying for {delay_seconds} seconds before raising error\<close>

datatype event =
    Print message
  | GetEnv string                              \<comment> \<open>os.environ.get(name, ...)\<close>
  | NewClient string                           \<comment> \<open>LlamaStackClient(base_url=...)\<close>
  | ApiModelsList client                       \<comment> \<open>client.models.list()\<close>
  | ApiRegister client string string string    \<comment> \<open>client.vector_dbs.register(vector_db_id, embedding_model, provider_id)\<close>
  | ApiInsert client "document list" string int
      \<comment> \<open>client.tool_runtime.rag_tool.insert(documents, vector_db_id, chunk_size_in_tokens)\<close>
  | FsExists string
  | FsIterdir string
  | FsIsFile string
  | FsRead string
  | FsStat string
  | Sleep int                                  \<comment> \<open>time.sleep(delay_seconds)\<close>

type_synonym 'a io = "event list \<times> (exn + 'a)"

definition io_return :: "'a \<Rightarrow> 'a io" where
  "io_return x = ([], Inr x)"

definition io_raise :: "exn \<Rightarrow> 'a io" where
  "io_raise e = ([], Inl e)"

definition emit :: "event \<Rightarrow> unit io" where
  "emit ev = ([ev], Inr ())"

text \<open>A call to the outside: the event, and what the outside answers.\<close>

definition call :: "event \<Rightarrow> (exn + 'a) \<Rightarrow> 'a io" where
  "call ev answer = ([ev], answer)"

text \<open>Sequencing: an exception in the first part skips the rest.\<close>

definition io_bind :: "'a io \<Rightarrow> ('a \<Rightarrow> 'b io) \<Rightarrow> 'b io" where
  "io_bind m f =
     (case m of
        (t, Inl e) \<Rightarrow> (t, Inl e)
      | (t, Inr x) \<Rightarrow> (case f x of (t', r) \<Rightarrow> (t @ t', r)))"

text \<open>
  \<^verbatim>\<open>try: m except C as e: h(e)\<close>, where \<open>handles\<close> says which exceptions the
  classes \<open>C\<close> cover.
\<close>

definition io_try :: "'a io \<Rightarrow> (exn \<Rightarrow> bool) \<Rightarrow> (exn \<Rightarrow> 'a io) \<Rightarrow> 'a io" where
  "io_try m handles h =
     (case m of
        (t, Inl e) \<Rightarrow> (if handles e then (case h e of (t', r) \<Rightarrow> (t @ t', r)) else (t, Inl e))
      | (t, Inr x) \<Rightarrow> (t, Inr x))"

definition trace :: "'a io \<Rightarrow> event list" where
  "trace m = fst m"

definition outcome :: "'a io \<Rightarrow> exn + 'a" where
  "outcome m = snd m"

text \<open>An entry of a directory listing, with the \<^verbatim>\<open>pathlib\<close> properties the script reads.\<close>

record dir_entry =
  entry_name :: string              \<comment> \<open>file_path.name\<close>
  entry_path :: string              \<comment> \<open>str(file_path)\<close>
  entry_suffix :: string            \<comment> \<open>file_path.suffix\<close>
  entry_stem :: string              \<comment> \<open>file_path.stem\<close>
  entry_is_file :: bool             \<comment> \<open>file_path.is_file()\<close>
  entry_read :: "exn + string"      \<comment> \<open>open(file_path, 'r', encoding='utf-8') and f.read()\<close>
  entry_size :: "exn + nat"         \<comment> \<open>file_path.stat().st_size\<close>

text \<open>What is outside the script.\<close>

record world =
  environ :: "string \<rightharpoonup> string"
  client_init :: "string \<Rightarrow> exn + unit"
  models_list :: "client \<Rightarrow> exn + model list"
  vector_dbs_register :: "client \<Rightarrow> string \<Rightarrow> string \<Rightarrow> string \<Rightarrow> exn + unit"
  rag_tool_insert :: "client \<Rightarrow> document list \<Rightarrow> string \<Rightarrow> int \<Rightarrow> exn + unit"
  path_exists :: "string \<Rightarrow> bool"
  path_iterdir :: "string \<Rightarrow> exn + dir_entry list"

section \<open>Built-ins of the language\<close>

text \<open>\<^verbatim>\<open>str.lower\<close>, on ASCII.\<close>

definition lower_char :: "char \<Rightarrow> char" where
  "lower_char c =
     (let n = (of_char c :: nat) in if 65 \<le> n \<and> n \<le> 90 then char_of (n + 32) else c)"

definition lower :: "string \<Rightarrow> string" where
  "lower s = map lower_char s"

text \<open>\<^verbatim>\<open>str(n)\<close> for an integer.\<close>

fun str_nat :: "nat \<Rightarrow> string" where
  "str_nat n =
     (if n < 10 then [char_of (48 + n)]
      else str_nat (n div 10) @ [char_of (48 + n mod 10)])"

declare str_nat.simps [simp del]

definition str_int :: "int \<Rightarrow> string" where
  "str_int i = (if i < 0 then CHR ''-'' # str_nat (nat (- i)) else str_nat (nat i))"

text \<open>
  \<^verbatim>\<open>int(s)\<close> for a string of ASCII characters, \<open>None\<close> where Python raises
  \<^verbatim>\<open>ValueError\<close>: surrounding whitespace (tab, newline, vertical tab, form feed,
  carriage return, space) is dropped, one sign is allowed, the digits may be grouped by
  single underscores, and a numeral of more digits than the interpreter's limit is
  rejected. The limit is the default of \<^verbatim>\<open>sys.get_int_max_str_digits()\<close>; it counts
  every digit, leading zeros too, and no underscore.
\<close>

definition int_max_str_digits :: nat where
  "int_max_str_digits = 4300"

definition is_space :: "char \<Rightarrow> bool" where
  "is_space c = ((of_char c :: nat) \<in> {9, 10, 11, 12, 13, 32})"

definition strip :: "string \<Rightarrow> string" where
  "strip s = rev (dropWhile is_space (rev (dropWhile is_space s)))"

definition digit_val :: "char \<Rightarrow> nat option" where
  "digit_val c =
     (let n = (of_char c :: nat) in if 48 \<le> n \<and> n \<le> 57 then Some (n - 48) else None)"

fun parse_digits :: "string \<Rightarrow> nat \<Rightarrow> bool \<Rightarrow> nat option" where
  "parse_digits [] acc after_digit = (if after_digit then Some acc else None)"
| "parse_digits (c # cs) acc after_digit =
     (if c = CHR ''_'' then (if after_digit then parse_digits cs acc False else None)
      else (case digit_val c of
              None \<Rightarrow> None
            | Some d \<Rightarrow> parse_digits cs (10 * acc + d) True))"

definition is_digit :: "char \<Rightarrow> bool" where
  "is_digit c = (digit_val c \<noteq> None)"

definition int_literal :: "string \<Rightarrow> nat option" where
  "int_literal body =
     (if int_max_str_digits < length (filter is_digit body) then None
      else parse_digits body 0 False)"

definition py_int :: "string \<Rightarrow> int option" where
  "py_int s =
     (case strip s of
        [] \<Rightarrow> None
      | c # cs \<Rightarrow>
          if c = CHR ''-'' then map_option (\<lambda>n. - int n) (int_literal cs)
          else if c = CHR ''+'' then map_option int (int_literal cs)
          else map_option int (int_literal (c # cs)))"

section \<open>The functions of run.py\<close>

definition DEFAULT_DELAY_SECONDS :: int where
  "DEFAULT_DELAY_SECONDS = 5"

text \<open>
  The constructor \<^verbatim>\<open>LlamaStackClient(base_url=...)\<close> belongs to the client library:
  whether it raises on a URL (as it does on one it cannot parse) is the world's answer
  \<open>client_init\<close>. A client is kept as the URL it was constructed with.
\<close>

definition create_client :: "world \<Rightarrow> string \<Rightarrow> int \<Rightarrow> bool \<Rightarrow> client io" where
  "create_client w host port secure =
     (let protocol = (if secure then ''https'' else ''http'') in
      if \<not> (1 \<le> port \<and> port \<le> 65535) then io_raise (ValueError (PortOutOfRange port))
      else if host = [] then io_raise (ValueError HostEmpty)
      else
        io_bind (emit (Print (MsgCreatingClient (protocol @ ''://'' @ host @ '':'' @ str_int port))))
          (\<lambda>_.
        io_bind (call (NewClient (protocol @ ''://'' @ host @ '':'' @ str_int port))
                   (client_init w (protocol @ ''://'' @ host @ '':'' @ str_int port)))
          (\<lambda>_.
        io_return \<lparr>base_url = protocol @ ''://'' @ host @ '':'' @ str_int port\<rparr>)))"

text \<open>\<^verbatim>\<open>d.get(key)\<close>: \<^verbatim>\<open>None\<close> when the key is missing.\<close>

definition dict_get :: "(string \<times> py_value) list \<Rightarrow> string \<Rightarrow> py_value" where
  "dict_get d key = (case map_of d key of None \<Rightarrow> VNone | Some v \<Rightarrow> v)"

text \<open>
  \<^verbatim>\<open>v[key]\<close> with a string key: \<^verbatim>\<open>KeyError\<close> on a dictionary without the key,
  \<^verbatim>\<open>TypeError\<close> on a value that is not a dictionary.
\<close>

definition subscript :: "py_value \<Rightarrow> string \<Rightarrow> py_value io" where
  "subscript v key =
     (case v of
        VDict d \<Rightarrow> (case map_of d key of None \<Rightarrow> io_raise (KeyError key) | Some x \<Rightarrow> io_return x)
      | _ \<Rightarrow> io_raise TypeError)"

text \<open>
  \<^verbatim>\<open>isinstance(v, (str, int, float))\<close>. In Python \<^verbatim>\<open>bool\<close> is a subclass of
  \<^verbatim>\<open>int\<close>, so a boolean passes.
\<close>

fun isinstance_str_int_float :: "py_value \<Rightarrow> bool" where
  "isinstance_str_int_float (VStr _) = True"
| "isinstance_str_int_float (VInt _) = True"
| "isinstance_str_int_float (VBool _) = True"
| "isinstance_str_int_float (VFloat _ _) = True"
| "isinstance_str_int_float _ = False"

text \<open>\<^verbatim>\<open>os.environ.get(name)\<close> and \<^verbatim>\<open>os.environ.get(name, default)\<close>.\<close>

definition getenv :: "world \<Rightarrow> string \<Rightarrow> string option io" where
  "getenv w name = call (GetEnv name) (Inr (environ w name))"

definition getenv_default :: "world \<Rightarrow> string \<Rightarrow> string \<Rightarrow> string io" where
  "getenv_default w name dflt =
     call (GetEnv name) (Inr (case environ w name of None \<Rightarrow> dflt | Some v \<Rightarrow> v))"

definition get_embedding_model :: "world \<Rightarrow> client \<Rightarrow> string \<Rightarrow> string \<Rightarrow> model io" where
  "get_embedding_model w client embedding_model_id embedding_model_provider =
     (if embedding_model_id = [] then io_raise (ValueError ModelIdRequired)
      else if embedding_model_provider = [] then io_raise (ValueError ModelProviderRequired)
      else
        io_bind (call (ApiModelsList client) (models_list w client)) (\<lambda>models.
          case find (\<lambda>model. model_identifier model = embedding_model_id
                             \<and> model_provider_id model = embedding_model_provider
                             \<and> model_api_model_type model = ''embedding'') models of
            Some model \<Rightarrow> io_return model
          | None \<Rightarrow> io_raise (ValueError (ModelNotFound embedding_model_id embedding_model_provider))))"

text \<open>
  The model argument is an option: \<open>None\<close> is Python's \<^verbatim>\<open>None\<close>, the one value
  of the parameter for which \<^verbatim>\<open>not embedding_model\<close> holds. The class \<^verbatim>\<open>Model\<close>
  declares the attribute \<^verbatim>\<open>metadata\<close>, so \<^verbatim>\<open>hasattr\<close> holds of every model.
\<close>

definition register_vector_db ::
  "world \<Rightarrow> client \<Rightarrow> model option \<Rightarrow> string \<Rightarrow> string \<Rightarrow> string io" where
  "register_vector_db w client embedding_model vector_db_id provider_id =
     (if vector_db_id = [] then io_raise (ValueError VectorDbIdRequired)
      else if provider_id = [] then io_raise (ValueError ProviderIdRequired)
      else (case embedding_model of
        None \<Rightarrow> io_raise (ValueError ModelRequired)
      | Some m \<Rightarrow>
          let embedding_model_id = model_identifier m in
          if embedding_model_id = [] then io_raise (ValueError ModelIdRequiredForDb)
          else if model_api_model_type m \<noteq> ''embedding'' then io_raise (ValueError NotEmbeddingModel)
          else (case model_metadata m of
            VDict d \<Rightarrow>
              if \<not> isinstance_str_int_float (dict_get d ''embedding_dimension'')
              then io_raise (ValueError DimensionBadType)
              else
                io_bind (subscript (model_metadata m) ''embedding_dimension'') (\<lambda>embedding_dimension.
                io_bind (emit (Print (MsgRegistering vector_db_id embedding_model_id embedding_dimension))) (\<lambda>_.
                io_bind (call (ApiRegister client vector_db_id embedding_model_id provider_id)
                           (vector_dbs_register w client vector_db_id embedding_model_id provider_id)) (\<lambda>_.
                io_bind (emit (Print (MsgRegistered vector_db_id))) (\<lambda>_.
                io_return vector_db_id))))
          | _ \<Rightarrow> io_raise (ValueError MetadataNotDict))))"

definition mime_types :: "(string \<times> string) list" where
  "mime_types =
     [(''.txt'', ''text/plain''), (''.md'', ''text/markdown''), (''.py'', ''text/plain''),
      (''.json'', ''application/json''), (''.html'', ''text/html''), (''.csv'', ''text/csv'')]"

definition get_mime_type :: "string \<Rightarrow> string" where
  "get_mime_type extension =
     (case map_of mime_types (lower extension) of None \<Rightarrow> ''text/plain'' | Some t \<Rightarrow> t)"

text \<open>
  The body of the \<^verbatim>\<open>try\<close> block of \<^verbatim>\<open>load_documents_from_folder\<close> for one file:
  read it, build the document, append it, report it.
\<close>

definition load_file :: "dir_entry \<Rightarrow> document list \<Rightarrow> document list io" where
  "load_file file_path documents =
     io_bind (call (FsRead (entry_path file_path)) (entry_read file_path)) (\<lambda>content.
     let mime_type = get_mime_type (entry_suffix file_path) in
     io_bind (call (FsStat (entry_path file_path)) (entry_size file_path)) (\<lambda>st_size.
     let doc = \<lparr>document_id = entry_stem file_path, content = content, mime_type = mime_type,
                meta_filename = entry_name file_path, meta_filepath = entry_path file_path,
                meta_file_size = st_size\<rparr> in
     io_bind (emit (Print (MsgLoaded (entry_name file_path)))) (\<lambda>_.
     io_return (documents @ [doc]))))"

text \<open>One round of the \<^verbatim>\<open>for file_path in folder.iterdir()\<close> loop.\<close>

definition load_entry :: "string list \<Rightarrow> dir_entry \<Rightarrow> document list \<Rightarrow> document list io" where
  "load_entry file_extensions file_path documents =
     io_bind (call (FsIsFile (entry_path file_path)) (Inr (entry_is_file file_path))) (\<lambda>is_file.
       if is_file \<and> lower (entry_suffix file_path) \<in> set file_extensions then
         io_try (load_file file_path documents) (\<lambda>e. True) (\<lambda>e.
           io_bind (emit (Print (MsgErrorReading (entry_path file_path) e))) (\<lambda>_.
           io_return documents))
       else io_return documents)"

text \<open>The loop, over the listing.\<close>

primrec load_entries :: "string list \<Rightarrow> dir_entry list \<Rightarrow> document list \<Rightarrow> document list io" where
  "load_entries file_extensions [] documents = io_return documents"
| "load_entries file_extensions (file_path # rest) documents =
     io_bind (load_entry file_extensions file_path documents)
       (load_entries file_extensions rest)"

definition load_documents_from_folder :: "world \<Rightarrow> string \<Rightarrow> string list \<Rightarrow> document list io" where
  "load_documents_from_folder w folder_path file_extensions =
     io_bind (call (FsExists folder_path) (Inr (path_exists w folder_path))) (\<lambda>exists.
       if \<not> exists then
         io_bind (emit (Print (MsgFolderMissing folder_path))) (\<lambda>_. io_return [])
       else
         io_bind (emit (Print (MsgLoadingFrom folder_path))) (\<lambda>_.
         io_bind (call (FsIterdir folder_path) (path_iterdir w folder_path)) (\<lambda>entries.
         io_bind (load_entries file_extensions entries []) (\<lambda>documents.
         io_bind (emit (Print (MsgLoadedCount (length documents)))) (\<lambda>_.
         io_return documents)))))"

definition insert_documents :: "world \<Rightarrow> client \<Rightarrow> document list \<Rightarrow> string \<Rightarrow> int \<Rightarrow> unit io" where
  "insert_documents w client documents vector_db_id chunk_size_in_tokens =
     (if documents = [] then
        io_bind (emit (Print MsgNoDocuments)) (\<lambda>_. io_return ())
      else
        io_bind (call (ApiInsert client documents vector_db_id chunk_size_in_tokens)
                   (rag_tool_insert w client documents vector_db_id chunk_size_in_tokens)) (\<lambda>_.
        emit (Print (MsgInsertedCount (length documents)))))"

text \<open>
  \<^verbatim>\<open>main\<close>, lines 183 to 196: the \<^verbatim>\<open>--delay\<close> argument (\<open>None\<close> when the flag is
  not given, so that argparse supplies the default \<^verbatim>\<open>"0"\<close>) becomes the delay.
\<close>

definition main_delay :: "string option \<Rightarrow> int io" where
  "main_delay arg =
     (let delay = (case arg of None \<Rightarrow> ''0'' | Some s \<Rightarrow> s) in
      io_bind
        (io_try
           (case py_int delay of
              None \<Rightarrow> io_raise (ValueError (IntError delay))
            | Some delay_seconds \<Rightarrow>
                if delay_seconds < 0 then io_raise (ValueError NegativeDelay)
                else io_return delay_seconds)
           (\<lambda>e. case e of ValueError _ \<Rightarrow> True | TypeError \<Rightarrow> True | _ \<Rightarrow> False)
           (\<lambda>e. io_bind (emit (Print (MsgInvalidDelay delay e))) (\<lambda>_.
                 io_return DEFAULT_DELAY_SECONDS)))
        (\<lambda>delay_seconds.
           io_bind (emit (Print (MsgDelayInfo delay_seconds))) (\<lambda>_. io_return delay_seconds)))"

text \<open>
  \<^verbatim>\<open>main\<close>, lines 199 to 251: the body of the \<^verbatim>\<open>try\<close> block. The test
  \<^verbatim>\<open>if not embedding_model\<close> of line 240 is on a \<^verbatim>\<open>Model\<close> object, which is
  never falsy, so it has no branch here.
\<close>

definition main_body :: "world \<Rightarrow> unit io" where
  "main_body w =
     io_bind (getenv w ''EMBEDDING_MODEL'') (\<lambda>embedding_model_id.
     case embedding_model_id of
       None \<Rightarrow> io_raise (ValueError (MustBeSet ''EMBEDDING_MODEL''))
     | Some embedding_model_id \<Rightarrow>
     io_bind (getenv w ''EMBEDDING_DIMENSION'') (\<lambda>embedding_model_dimension.
     case embedding_model_dimension of
       None \<Rightarrow> io_raise (ValueError (MustBeSet ''EMBEDDING_DIMENSION''))
     | Some embedding_model_dimension \<Rightarrow>
     io_bind (getenv w ''EMBEDDING_MODEL_PROVIDER'') (\<lambda>embedding_model_provider.
     case embedding_model_provider of
       None \<Rightarrow> io_raise (ValueError (MustBeSet ''EMBEDDING_MODEL_PROVIDER''))
     | Some embedding_model_provider \<Rightarrow>
     io_bind (getenv_default w ''CHUNK_SIZE_IN_TOKENS'' ''512'') (\<lambda>chunk_size.
     case py_int chunk_size of
       None \<Rightarrow> io_raise (ValueError (IntError chunk_size))
     | Some chunk_size_in_tokens \<Rightarrow>
     io_bind (getenv w ''LLAMA_STACK_HOST'') (\<lambda>host.
     case host of
       None \<Rightarrow> io_raise (ValueError (MustBeSet ''LLAMA_STACK_HOST''))
     | Some host \<Rightarrow>
     if host = [] then io_raise (ValueError (MustBeSet ''LLAMA_STACK_HOST'')) else
     io_bind (getenv w ''LLAMA_STACK_PORT'') (\<lambda>port.
     case port of
       None \<Rightarrow> io_raise (ValueError (MustBeSet ''LLAMA_STACK_PORT''))
     | Some port \<Rightarrow>
     if port = [] then io_raise (ValueError (MustBeSet ''LLAMA_STACK_PORT'')) else
     io_bind (getenv_default w ''LLAMA_STACK_SECURE'' ''false'') (\<lambda>secure_text.
     let secure = (lower secure_text \<in> set [''true'', ''1'', ''yes'']) in
     io_bind (emit (Print MsgDebugHeader)) (\<lambda>_.
     io_bind (emit (Print (MsgDebugHost host))) (\<lambda>_.
     io_bind (emit (Print (MsgDebugPort port))) (\<lambda>_.
     io_bind (emit (Print (MsgDebugSecure secure))) (\<lambda>_.
     io_bind (getenv_default w ''DOCS_FOLDER'' ''./docs'') (\<lambda>docs_folder.
     if docs_folder = [] then io_raise (ValueError (MustBeSet ''DOCS_FOLDER'')) else
     case py_int port of
       None \<Rightarrow> io_raise (ValueError (IntError port))
     | Some port_number \<Rightarrow>
     io_bind (create_client w host port_number secure) (\<lambda>client.
     io_bind (emit (Print (MsgConnected host port))) (\<lambda>_.
     io_bind (get_embedding_model w client embedding_model_id embedding_model_provider) (\<lambda>embedding_model.
     io_bind (subscript (model_metadata embedding_model) ''embedding_dimension'') (\<lambda>dimension.
     io_bind (emit (Print (MsgUsingModel (model_identifier embedding_model) dimension))) (\<lambda>_.
     io_bind (register_vector_db w client (Some embedding_model) ''milvus_db'' ''milvus'') (\<lambda>vector_db_id.
     io_bind (load_documents_from_folder w docs_folder [''.txt'', ''.md'']) (\<lambda>documents.
     io_bind (insert_documents w client documents vector_db_id 512) (\<lambda>_.
     emit (Print (MsgDone vector_db_id chunk_size_in_tokens))))))))))))))))))))))"

text \<open>
  \<^verbatim>\<open>main\<close> as a whole: the delay, the body, and the handler of lines 252 to 257
  (\<^verbatim>\<open>except Exception as e\<close>: print, sleep, \<^verbatim>\<open>raise e\<close>).
\<close>

definition main :: "world \<Rightarrow> string option \<Rightarrow> unit io" where
  "main w arg =
     io_bind (main_delay arg) (\<lambda>delay_seconds.
       io_try (main_body w) (\<lambda>e. True) (\<lambda>e.
         io_bind (emit (Print (MsgError e))) (\<lambda>_.
         io_bind (if delay_seconds > 0
                  then io_bind (emit (Print (MsgDelaying delay_seconds))) (\<lambda>_. emit (Sleep delay_seconds))
                  else io_return ()) (\<lambda>_.
         io_raise e))))"

section \<open>Reading a trace\<close>

text \<open>The calls to the remote service, and the events that reach outside the process.\<close>

fun is_api_call :: "event \<Rightarrow> bool" where
  "is_api_call (ApiModelsList _) = True"
| "is_api_call (ApiRegister _ _ _ _) = True"
| "is_api_call (ApiInsert _ _ _ _) = True"
| "is_api_call _ = False"


text \<open>
  The state of the remote service after a trace, for any service: a state \<open>s\<close> and
  a transition function \<open>step\<close> that says what a call does to it. Only calls reach
  the service.
\<close>

definition service_after :: "('s \<Rightarrow> event \<Rightarrow> 's) \<Rightarrow> 's \<Rightarrow> event list \<Rightarrow> 's" where
  "service_after step s t = foldl step s (filter is_api_call t)"

text \<open>
  The steps of the flow the specification names, and the events that do a step: reading
  a variable of the environment, constructing the client, listing the models,
  registering the database, every access to the folder and its files, the insertion
  call, and the final report. A line printed on the way is no step; the report is the
  one line that is.
\<close>

datatype step =
    ReadConfig | ConstructClient | ResolveModel | RegisterDatabase
  | ScanFolder | UploadDocuments | ReportResult | HandleFailure

fun step_of :: "event \<Rightarrow> step option" where
  "step_of (GetEnv _) = Some ReadConfig"
| "step_of (NewClient _) = Some ConstructClient"
| "step_of (ApiModelsList _) = Some ResolveModel"
| "step_of (ApiRegister _ _ _ _) = Some RegisterDatabase"
| "step_of (FsExists _) = Some ScanFolder"
| "step_of (FsIterdir _) = Some ScanFolder"
| "step_of (FsIsFile _) = Some ScanFolder"
| "step_of (FsRead _) = Some ScanFolder"
| "step_of (FsStat _) = Some ScanFolder"
| "step_of (ApiInsert _ _ _ _) = Some UploadDocuments"
| "step_of (Print (MsgDone _ _)) = Some ReportResult"
| "step_of (Sleep _) = Some HandleFailure"
| "step_of (Print _) = None"

text \<open>The events of a trace that do a step, in order.\<close>

definition actions :: "event list \<Rightarrow> event list" where
  "actions t = filter (\<lambda>e. step_of e \<noteq> None) t"

text \<open>The steps a trace goes through, each run of events of one step counted once.\<close>

definition steps :: "event list \<Rightarrow> step list" where
  "steps t = remdups_adj (List.map_filter step_of t)"

text \<open>
  What the loop of \<open>load_documents_from_folder\<close> is meant to compute, written
  directly: the entries it keeps, and the document of an entry it keeps.
\<close>

definition spec_loadable :: "string list \<Rightarrow> dir_entry \<Rightarrow> bool" where
  "spec_loadable file_extensions e \<longleftrightarrow>
     entry_is_file e \<and> lower (entry_suffix e) \<in> set file_extensions
     \<and> \<not> isl (entry_read e) \<and> \<not> isl (entry_size e)"

definition spec_document :: "dir_entry \<Rightarrow> document" where
  "spec_document e =
     \<lparr>document_id = entry_stem e, content = projr (entry_read e),
      mime_type = get_mime_type (entry_suffix e),
      meta_filename = entry_name e, meta_filepath = entry_path e,
      meta_file_size = projr (entry_size e)\<rparr>"

section \<open>A deployment, for concrete runs\<close>

definition example_model :: model where
  "example_model =
     \<lparr>model_identifier = ''granite-embedding-125m'', model_provider_id = ''sentence-transformers'',
      model_api_model_type = ''embedding'',
      model_metadata = VDict [(''embedding_dimension'', VInt 768)]\<rparr>"

definition example_entries :: "dir_entry list" where
  "example_entries =
     [\<lparr>entry_name = ''rules.TXT'', entry_path = ''docs/rules.TXT'', entry_suffix = ''.TXT'',
       entry_stem = ''rules'', entry_is_file = True, entry_read = Inr ''text'', entry_size = Inr 4\<rparr>,
      \<lparr>entry_name = ''locked.md'', entry_path = ''docs/locked.md'', entry_suffix = ''.md'',
       entry_stem = ''locked'', entry_is_file = True, entry_read = Inl (OtherError 13),
       entry_size = Inr 9\<rparr>,
      \<lparr>entry_name = ''img.png'', entry_path = ''docs/img.png'', entry_suffix = ''.png'',
       entry_stem = ''img'', entry_is_file = True, entry_read = Inr ''png'', entry_size = Inr 3\<rparr>,
      \<lparr>entry_name = ''old.md'', entry_path = ''docs/old.md'', entry_suffix = ''.md'',
       entry_stem = ''old'', entry_is_file = False, entry_read = Inl (OtherError 21),
       entry_size = Inr 0\<rparr>]"

definition example_environ :: "(string \<times> string) list" where
  "example_environ =
     [(''EMBEDDING_MODEL'', ''granite-embedding-125m''), (''EMBEDDING_DIMENSION'', ''768''),
      (''EMBEDDING_MODEL_PROVIDER'', ''sentence-transformers''),
      (''CHUNK_SIZE_IN_TOKENS'', ''256''),
      (''LLAMA_STACK_HOST'', ''localhost''), (''LLAMA_STACK_PORT'', ''8080'')]"

definition example_world :: world where
  "example_world =
     \<lparr>environ = map_of example_environ,
      client_init = (\<lambda>url. Inr ()),
      models_list = (\<lambda>c. Inr [example_model]),
      vector_dbs_register = (\<lambda>c vector_db_id embedding_model provider_id. Inr ()),
      rag_tool_insert = (\<lambda>c documents vector_db_id chunk_size_in_tokens. Inr ()),
      path_exists = (\<lambda>p. p = ''./docs''),
      path_iterdir = (\<lambda>p. Inr example_entries)\<rparr>"

definition example_client :: client where
  "example_client = \<lparr>base_url = ''http://localhost:8080''\<rparr>"

definition example_document :: document where
  "example_document =
     \<lparr>document_id = ''rules'', content = ''text'', mime_type = ''text/plain'',
      meta_filename = ''rules.TXT'', meta_filepath = ''docs/rules.TXT'', meta_file_size = 4\<rparr>"

text \<open>The same deployment where the documents folder does not exist.\<close>

definition example_world_no_folder :: world where
  "example_world_no_folder = example_world\<lparr>path_exists := (\<lambda>p. False)\<rparr>"



section \<open>Decimal numerals: printing and parsing agree\<close>

lemma digit_val_char_of: "d < 10 \<Longrightarrow> digit_val (char_of (48 + d)) = Some d"
  by (simp add: digit_val_def Let_def)

lemma digit_not_underscore: "(d::nat) < 10 \<Longrightarrow> char_of (48 + d) \<noteq> CHR ''_''"
proof
  assume d: "d < 10" and "char_of (48 + d) = CHR ''_''"
  then have "(of_char (char_of (48 + d)) :: nat) = of_char (CHR ''_'')" by simp
  then show False using d by simp
qed

lemma digit_not_minus: "(d::nat) < 10 \<Longrightarrow> char_of (48 + d) \<noteq> CHR ''-''"
proof
  assume d: "d < 10" and "char_of (48 + d) = CHR ''-''"
  then have "(of_char (char_of (48 + d)) :: nat) = of_char (CHR ''-'')" by simp
  then show False using d by simp
qed

lemma digit_not_plus: "(d::nat) < 10 \<Longrightarrow> char_of (48 + d) \<noteq> CHR ''+''"
proof
  assume d: "d < 10" and "char_of (48 + d) = CHR ''+''"
  then have "(of_char (char_of (48 + d)) :: nat) = of_char (CHR ''+'')" by simp
  then show False using d by simp
qed

lemma digit_not_space: "d < 10 \<Longrightarrow> \<not> is_space (char_of (48 + (d::nat)))"
  by (simp add: is_space_def)

lemma parse_digits_str_nat:
  "parse_digits (str_nat n @ ys) acc b = parse_digits ys (acc * 10 ^ length (str_nat n) + n) True"
proof (induction n arbitrary: ys acc b rule: str_nat.induct)
  case (1 n)
  show ?case
  proof (cases "n < 10")
    case True
    then show ?thesis
      by (simp add: str_nat.simps [of n] digit_val_char_of digit_not_underscore mult.commute)
  next
    case False
    have m: "n mod 10 < 10" by simp
    have "parse_digits (str_nat n @ ys) acc b =
          parse_digits (str_nat (n div 10) @ (char_of (48 + n mod 10) # ys)) acc b"
      using False by (simp add: str_nat.simps [of n])
    also have "\<dots> = parse_digits (char_of (48 + n mod 10) # ys)
                      (acc * 10 ^ length (str_nat (n div 10)) + n div 10) True"
      using "1.IH" [OF False] by simp
    also have "\<dots> = parse_digits ys
                      (10 * (acc * 10 ^ length (str_nat (n div 10)) + n div 10) + n mod 10) True"
      using m by (simp add: digit_val_char_of digit_not_underscore)
    also have "10 * (acc * 10 ^ length (str_nat (n div 10)) + n div 10) + n mod 10
               = acc * 10 ^ length (str_nat n) + n"
      using False by (simp add: str_nat.simps [of n] algebra_simps)
    finally show ?thesis .
  qed
qed

lemma str_nat_no_space: "c \<in> set (str_nat n) \<Longrightarrow> \<not> is_space c"
proof (induction n rule: str_nat.induct)
  case (1 n)
  then show ?case
    by (cases "n < 10") (auto simp: str_nat.simps [of n] digit_not_space)
qed

lemma str_nat_starts_with_digit: "\<exists>(d::nat) cs. d < 10 \<and> str_nat n = char_of (48 + d) # cs"
proof (induction n rule: str_nat.induct)
  case (1 n)
  show ?case
  proof (cases "n < 10")
    case True
    then show ?thesis by (auto simp: str_nat.simps [of n])
  next
    case False
    with 1 obtain d :: nat and cs where "d < 10" "str_nat (n div 10) = char_of (48 + d) # cs"
      by blast
    then show ?thesis using False by (auto simp: str_nat.simps [of n])
  qed
qed

lemma dropWhile_none: "\<forall>c\<in>set xs. \<not> P c \<Longrightarrow> dropWhile P xs = xs"
  by (cases xs) auto

lemma strip_no_space: "\<forall>c\<in>set xs. \<not> is_space c \<Longrightarrow> strip xs = xs"
  by (simp add: strip_def dropWhile_none)

lemma str_nat_digits: "c \<in> set (str_nat n) \<Longrightarrow> is_digit c"
proof (induction n rule: str_nat.induct)
  case (1 n)
  then show ?case
    by (cases "n < 10") (auto simp: str_nat.simps [of n] is_digit_def digit_val_char_of)
qed

lemma length_str_nat: "0 < k \<Longrightarrow> length (str_nat n) \<le> k \<longleftrightarrow> n < 10 ^ k"
proof (induction n arbitrary: k rule: str_nat.induct)
  case (1 n)
  show ?case
  proof (cases "n < 10")
    case True
    have "(10::nat) ^ 1 \<le> 10 ^ k"
      using "1.prems" by (intro power_increasing) simp_all
    with True "1.prems" show ?thesis
      by (simp add: str_nat.simps [of n])
  next
    case False
    show ?thesis
    proof (cases k)
      case 0
      with "1.prems" show ?thesis by simp
    next
      case (Suc j)
      show ?thesis
      proof (cases "j = 0")
        case True
        with Suc False show ?thesis
          by (simp add: str_nat.simps [of n] str_nat.simps [of "n div 10"])
      next
        case j: False
        have "length (str_nat (n div 10)) \<le> j \<longleftrightarrow> n div 10 < 10 ^ j"
          using "1.IH" [OF False, of j] j by simp
        moreover have "n div 10 < 10 ^ j \<longleftrightarrow> n < 10 ^ Suc j"
          by (simp add: div_less_iff_less_mult mult.commute)
        ultimately show ?thesis
          using False Suc by (simp add: str_nat.simps [of n])
      qed
    qed
  qed
qed

lemma int_literal_str_nat:
  "int_literal (str_nat n) = (if n < 10 ^ int_max_str_digits then Some n else None)"
proof -
  have "filter is_digit (str_nat n) = str_nat n"
    by (simp add: str_nat_digits)
  moreover have "parse_digits (str_nat n) 0 False = Some n"
    using parse_digits_str_nat [of n "[]" 0 False] by simp
  moreover have "length (str_nat n) \<le> int_max_str_digits \<longleftrightarrow> n < 10 ^ int_max_str_digits"
    by (rule length_str_nat) (simp add: int_max_str_digits_def)
  ultimately show ?thesis
    by (auto simp: int_literal_def)
qed

lemma py_int_str_nat:
  "py_int (str_nat n) = (if n < 10 ^ int_max_str_digits then Some (int n) else None)"
proof -
  obtain d :: nat and cs where d: "d < 10" and s: "str_nat n = char_of (48 + d) # cs"
    using str_nat_starts_with_digit by blast
  have "strip (str_nat n) = str_nat n"
    by (rule strip_no_space) (auto dest: str_nat_no_space)
  moreover have "int_literal (char_of (48 + d) # cs) =
                   (if n < 10 ^ int_max_str_digits then Some n else None)"
    using int_literal_str_nat [of n] s by simp
  ultimately show ?thesis
    using s digit_not_minus [OF d] digit_not_plus [OF d]
    by (simp add: py_int_def)
qed

lemma py_int_str_int:
  "0 \<le> n \<Longrightarrow> n < 10 ^ int_max_str_digits \<Longrightarrow> py_int (str_int n) = Some n"
  "10 ^ int_max_str_digits \<le> n \<Longrightarrow> py_int (str_int n) = None"
proof -
  have less: "nat n < 10 ^ int_max_str_digits \<longleftrightarrow> n < 10 ^ int_max_str_digits" if "0 \<le> n"
    using that by (simp add: nat_less_iff)
  show "py_int (str_int n) = Some n" if "0 \<le> n" "n < 10 ^ int_max_str_digits"
    using that less by (simp add: str_int_def py_int_str_nat)
  show "py_int (str_int n) = None" if "10 ^ int_max_str_digits \<le> n"
  proof -
    have "(0::int) \<le> 10 ^ int_max_str_digits" by simp
    with that have n: "0 \<le> n" by linarith
    with that less show ?thesis
      by (simp add: str_int_def py_int_str_nat)
  qed
qed

lemmas py_int_defs =
  py_int_def int_literal_def int_max_str_digits_def is_digit_def strip_def is_space_def
  digit_val_def

section \<open>Sequencing\<close>

lemma io_bind_Inl [simp]: "io_bind (t, Inl e) f = (t, Inl e)"
  by (simp add: io_bind_def)

lemma io_bind_Inr [simp]: "io_bind (t, Inr x) f = (t @ fst (f x), snd (f x))"
  by (simp add: io_bind_def split: prod.splits)

lemma io_try_Inl [simp]:
  "io_try (t, Inl e) handles h = (if handles e then (t @ fst (h e), snd (h e)) else (t, Inl e))"
  by (simp add: io_try_def split: prod.splits)

lemma io_try_Inr [simp]: "io_try (t, Inr x) handles h = (t, Inr x)"
  by (simp add: io_try_def)

lemmas io_defs = io_return_def io_raise_def emit_def call_def trace_def outcome_def

section \<open>The client\<close>



section \<open>The delay\<close>

text \<open>
  Claim C6, as the code has it. Without the flag \<^verbatim>\<open>--delay\<close> the delay is 0. With
  an argument that \<^verbatim>\<open>int\<close> rejects, the delay is \<open>DEFAULT_DELAY_SECONDS\<close>, which is 5.
  With an argument that \<^verbatim>\<open>int\<close> reads as a non-negative integer, the delay is that
  integer; this is so for the decimal numeral of every non-negative integer below
  \<open>10 ^ int_max_str_digits\<close>, while the numeral of a larger one has more digits than
  \<^verbatim>\<open>int\<close> accepts and gives the delay 5.
\<close>

theorem delay_flag:
  "outcome (main_delay None) = Inr 0
   \<and> (py_int s = None \<longrightarrow> outcome (main_delay (Some s)) = Inr DEFAULT_DELAY_SECONDS)
   \<and> DEFAULT_DELAY_SECONDS = 5
   \<and> (py_int s = Some n \<and> 0 \<le> n \<longrightarrow> outcome (main_delay (Some s)) = Inr n)
   \<and> (0 \<le> n \<and> n < 10 ^ int_max_str_digits \<longrightarrow> outcome (main_delay (Some (str_int n))) = Inr n)
   \<and> (10 ^ int_max_str_digits \<le> n \<longrightarrow>
        outcome (main_delay (Some (str_int n))) = Inr DEFAULT_DELAY_SECONDS)"
proof -
  have none: "outcome (main_delay None) = Inr 0"
    by (simp add: main_delay_def py_int_defs io_defs)
  have bad: "outcome (main_delay (Some s')) = Inr DEFAULT_DELAY_SECONDS" if "py_int s' = None" for s'
    using that by (simp add: main_delay_def io_defs)
  have good: "outcome (main_delay (Some s')) = Inr n" if "py_int s' = Some n" "0 \<le> n" for s'
    using that by (simp add: main_delay_def io_defs)
  show ?thesis
    using none bad [of s] good [of s] good [OF py_int_str_int(1)] bad [OF py_int_str_int(2)]
    by (simp add: DEFAULT_DELAY_SECONDS_def)
qed

theorem delay_flag_witness:
  "py_int ''soon'' = None \<and> outcome (main_delay (Some ''soon'')) = Inr 5
   \<and> py_int ''30'' = Some 30 \<and> outcome (main_delay (Some ''30'')) = Inr 30
   \<and> outcome (main_delay (Some (str_int 7))) = Inr 7"
proof -
  have a: "py_int ''soon'' = None"
    by (simp add: py_int_defs)
  have b: "py_int ''30'' = Some 30"
    by (simp add: py_int_defs)
  have "(10::int) ^ 1 \<le> 10 ^ int_max_str_digits"
    by (intro power_increasing) (simp_all add: int_max_str_digits_def)
  then have c: "(7::int) < 10 ^ int_max_str_digits" by simp
  show ?thesis
    using a b c delay_flag [of "''soon''" 7] delay_flag [of "''30''" 30] by simp
qed

text \<open>
  Claim C6 as it was stated, that the delay equals every non-negative integer argument,
  fails at the numeral of \<open>10 ^ 4300\<close>: it has 4301 digits, \<^verbatim>\<open>int\<close> raises
  \<^verbatim>\<open>ValueError\<close>, and the delay falls back to 5.
\<close>

theorem delay_flag_counterexample:
  "int_max_str_digits = 4300
   \<and> (0::int) \<le> 10 ^ int_max_str_digits
   \<and> outcome (main_delay (Some (str_int (10 ^ int_max_str_digits)))) = Inr 5
   \<and> (10::int) ^ int_max_str_digits \<noteq> 5"
proof -
  have "py_int (str_int (10 ^ int_max_str_digits)) = None"
    by (rule py_int_str_int(2)) (rule order_refl)
  then have "outcome (main_delay (Some (str_int (10 ^ int_max_str_digits)))) = Inr 5"
    by (simp add: main_delay_def Let_def DEFAULT_DELAY_SECONDS_def io_defs)
  moreover have "(10::int) ^ 1 \<le> 10 ^ int_max_str_digits"
    by (intro power_increasing) (simp_all add: int_max_str_digits_def)
  then have "(10::int) ^ int_max_str_digits \<noteq> 5" by simp
  moreover have "int_max_str_digits = 4300"
    by (simp add: int_max_str_digits_def)
  ultimately show ?thesis by simp
qed

section \<open>Registration\<close>

lemma subscript_dict_get:
  "isinstance_str_int_float (dict_get d key) \<Longrightarrow> subscript (VDict d) key = ([], Inr (dict_get d key))"
  by (auto simp: subscript_def dict_get_def io_defs split: option.splits)

text \<open>
  Claim C4. For every model whose \<open>api_model_type\<close> is not "embedding", whose metadata
  is not a dictionary, or whose metadata entry "embedding_dimension" is not a str, int or
  float (Python's \<^verbatim>\<open>isinstance\<close>, for which a bool is an int, and a missing entry is
  \<^verbatim>\<open>None\<close>), \<open>register_vector_db\<close> raises a \<^verbatim>\<open>ValueError\<close> and has emitted nothing:
  no call to \<^verbatim>\<open>vector_dbs.register\<close>. For a well-formed embedding model and non-empty
  identifiers it makes exactly that call, with the identifiers it was given, and returns
  the \<open>vector_db_id\<close> it was given when the call returns (an exception of the call
  is passed on).
\<close>

theorem register_vector_db_validation:
  "(model_api_model_type m \<noteq> ''embedding''
      \<or> (\<forall>d. model_metadata m \<noteq> VDict d)
      \<or> (\<exists>d. model_metadata m = VDict d \<and> \<not> isinstance_str_int_float (dict_get d ''embedding_dimension''))
    \<longrightarrow> (\<exists>msg. outcome (register_vector_db w c (Some m) vector_db_id provider) = Inl (ValueError msg))
        \<and> trace (register_vector_db w c (Some m) vector_db_id provider) = [])
   \<and> (vector_db_id \<noteq> [] \<and> provider \<noteq> [] \<and> model_identifier m \<noteq> []
        \<and> model_api_model_type m = ''embedding'' \<and> model_metadata m = VDict d
        \<and> isinstance_str_int_float (dict_get d ''embedding_dimension'')
    \<longrightarrow> trace (register_vector_db w c (Some m) vector_db_id provider) =
          [Print (MsgRegistering vector_db_id (model_identifier m) (dict_get d ''embedding_dimension'')),
           ApiRegister c vector_db_id (model_identifier m) provider]
          @ (case vector_dbs_register w c vector_db_id (model_identifier m) provider of
               Inl e \<Rightarrow> [] | Inr _ \<Rightarrow> [Print (MsgRegistered vector_db_id)])
        \<and> outcome (register_vector_db w c (Some m) vector_db_id provider) =
          (case vector_dbs_register w c vector_db_id (model_identifier m) provider of
             Inl e \<Rightarrow> Inl e | Inr _ \<Rightarrow> Inr vector_db_id))"
proof -
  have bad: "(\<exists>msg. outcome (register_vector_db w c (Some m) vector_db_id provider) = Inl (ValueError msg))
        \<and> trace (register_vector_db w c (Some m) vector_db_id provider) = []"
    if "model_api_model_type m \<noteq> ''embedding''
      \<or> (\<forall>d. model_metadata m \<noteq> VDict d)
      \<or> (\<exists>d. model_metadata m = VDict d \<and> \<not> isinstance_str_int_float (dict_get d ''embedding_dimension''))"
    using that by (auto simp: register_vector_db_def Let_def io_defs split: py_value.splits)
  have good: "trace (register_vector_db w c (Some m) vector_db_id provider) =
          [Print (MsgRegistering vector_db_id (model_identifier m) (dict_get d ''embedding_dimension'')),
           ApiRegister c vector_db_id (model_identifier m) provider]
          @ (case vector_dbs_register w c vector_db_id (model_identifier m) provider of
               Inl e \<Rightarrow> [] | Inr _ \<Rightarrow> [Print (MsgRegistered vector_db_id)])
        \<and> outcome (register_vector_db w c (Some m) vector_db_id provider) =
          (case vector_dbs_register w c vector_db_id (model_identifier m) provider of
             Inl e \<Rightarrow> Inl e | Inr _ \<Rightarrow> Inr vector_db_id)"
    if "vector_db_id \<noteq> []" "provider \<noteq> []" "model_identifier m \<noteq> []"
       "model_api_model_type m = ''embedding''" "model_metadata m = VDict d"
       "isinstance_str_int_float (dict_get d ''embedding_dimension'')"
    using that
    by (cases "vector_dbs_register w c vector_db_id (model_identifier m) provider")
       (simp_all add: register_vector_db_def Let_def subscript_dict_get io_defs)
  show ?thesis using bad good by blast
qed

theorem register_vector_db_validation_witness:
  "outcome (register_vector_db example_world example_client (Some example_model) ''milvus_db'' ''milvus'')
     = Inr ''milvus_db''
   \<and> trace (register_vector_db example_world example_client (Some example_model) ''milvus_db'' ''milvus'')
     = [Print (MsgRegistering ''milvus_db'' ''granite-embedding-125m'' (VInt 768)),
        ApiRegister example_client ''milvus_db'' ''granite-embedding-125m'' ''milvus'',
        Print (MsgRegistered ''milvus_db'')]
   \<and> register_vector_db example_world example_client
        (Some (example_model\<lparr>model_metadata := VDict [(''embedding_dimension'', VNone)]\<rparr>))
        ''milvus_db'' ''milvus''
     = ([], Inl (ValueError DimensionBadType))"
proof -
  have a: "model_api_model_type example_model = ''embedding''"
     "model_identifier example_model = ''granite-embedding-125m''"
     "model_metadata example_model = VDict [(''embedding_dimension'', VInt 768)]"
    by (simp_all add: example_model_def)
  have b: "dict_get [(''embedding_dimension'', VInt 768)] ''embedding_dimension'' = VInt 768"
       "dict_get [(''embedding_dimension'', VNone)] ''embedding_dimension'' = VNone"
    by (simp_all add: dict_get_def)
  have r: "vector_dbs_register example_world example_client ''milvus_db'' ''granite-embedding-125m'' ''milvus'' = Inr ()"
    by (simp add: example_world_def)
  have bad: "register_vector_db example_world example_client
        (Some (example_model\<lparr>model_metadata := VDict [(''embedding_dimension'', VNone)]\<rparr>))
        ''milvus_db'' ''milvus'' = ([], Inl (ValueError DimensionBadType))"
    by (simp add: register_vector_db_def a b io_defs)
  show ?thesis
    using register_vector_db_validation
            [where m = example_model and d = "[(''embedding_dimension'', VInt 768)]"
               and w = example_world and c = example_client
               and vector_db_id = "''milvus_db''" and provider = "''milvus''"]
          register_vector_db_validation
            [where m = "example_model\<lparr>model_metadata := VDict [(''embedding_dimension'', VNone)]\<rparr>"
               and w = example_world and c = example_client
               and vector_db_id = "''milvus_db''" and provider = "''milvus''"]
    by (simp add: a b r bad)
qed


section \<open>Insertion\<close>

text \<open>
  Claim C9. For the empty document list, \<open>insert_documents\<close> prints one line and
  returns normally, whatever the \<open>vector_db_id\<close> and the chunk size: its trace has no
  call to the remote service, so the state of any service is the same after it.
\<close>

theorem insert_documents_empty:
  "insert_documents w c [] vector_db_id chunk_size_in_tokens = ([Print MsgNoDocuments], Inr ())
   \<and> filter is_api_call (trace (insert_documents w c [] vector_db_id chunk_size_in_tokens)) = []
   \<and> service_after step s (trace (insert_documents w c [] vector_db_id chunk_size_in_tokens)) = s"
  by (simp add: insert_documents_def service_after_def io_defs)

section \<open>Traces and outcomes of a sequence\<close>

lemma trace_io_bind:
  "trace (io_bind m f) = trace m @ (case outcome m of Inl e \<Rightarrow> [] | Inr x \<Rightarrow> trace (f x))"
  by (cases m; cases "snd m") (auto simp: io_defs)

lemma outcome_io_bind:
  "outcome (io_bind m f) = (case outcome m of Inl e \<Rightarrow> Inl e | Inr x \<Rightarrow> outcome (f x))"
  by (cases m; cases "snd m") (auto simp: io_defs)

lemma outcome_simps [simp]:
  "outcome (io_return x) = Inr x"
  "outcome (io_raise e) = Inl e"
  "outcome (emit ev) = Inr ()"
  "outcome (call ev answer) = answer"
  "outcome (t, r) = r"
  by (simp_all add: io_defs)

lemma trace_simps [simp]:
  "trace (io_return x) = []"
  "trace (io_raise e) = []"
  "trace (emit ev) = [ev]"
  "trace (call ev answer) = [ev]"
  "trace (t, r) = t"
  by (simp_all add: io_defs)

section \<open>Scanning the folder\<close>

lemma load_entry_outcome:
  "outcome (load_entry exts e docs) =
     Inr (if spec_loadable exts e then docs @ [spec_document e] else docs)"
  by (cases "entry_read e"; cases "entry_size e")
     (simp_all add: load_entry_def load_file_def Let_def spec_loadable_def spec_document_def io_defs)







section \<open>The top level\<close>

lemma main_delay_run:
  "\<exists>t d. main_delay arg = (t, Inr d)
     \<and> (t = [Print (MsgDelayInfo d)] \<or> (\<exists>s e. t = [Print (MsgInvalidDelay s e), Print (MsgDelayInfo d)]))"
  by (cases "py_int (case arg of None \<Rightarrow> ''0'' | Some s \<Rightarrow> s)")
     (auto simp: main_delay_def Let_def io_defs)

lemma main_run:
  "\<exists>t0 d. main_delay arg = (t0, Inr d)
     \<and> (t0 = [Print (MsgDelayInfo d)] \<or> (\<exists>s e. t0 = [Print (MsgInvalidDelay s e), Print (MsgDelayInfo d)]))
     \<and> main w arg =
         (case main_body w of
            (t, Inl e) \<Rightarrow> (t0 @ t @ [Print (MsgError e)]
                             @ (if 0 < d then [Print (MsgDelaying d), Sleep d] else []), Inl e)
          | (t, Inr x) \<Rightarrow> (t0 @ t, Inr x))"
proof -
  obtain t0 d where d: "main_delay arg = (t0, Inr d)"
    and t0: "t0 = [Print (MsgDelayInfo d)] \<or> (\<exists>s e. t0 = [Print (MsgInvalidDelay s e), Print (MsgDelayInfo d)])"
    using main_delay_run by blast
  have "main w arg =
         (case main_body w of
            (t, Inl e) \<Rightarrow> (t0 @ t @ [Print (MsgError e)]
                             @ (if 0 < d then [Print (MsgDelaying d), Sleep d] else []), Inl e)
          | (t, Inr x) \<Rightarrow> (t0 @ t, Inr x))"
    unfolding main_def d
    by (cases "main_body w"; cases "snd (main_body w)") (auto simp: io_defs)
  with d t0 show ?thesis by blast
qed


section \<open>The example deployment, run\<close>

lemma example_env:
  "environ example_world ''EMBEDDING_MODEL'' = Some ''granite-embedding-125m''"
  "environ example_world ''EMBEDDING_DIMENSION'' = Some ''768''"
  "environ example_world ''EMBEDDING_MODEL_PROVIDER'' = Some ''sentence-transformers''"
  "environ example_world ''CHUNK_SIZE_IN_TOKENS'' = Some ''256''"
  "environ example_world ''LLAMA_STACK_HOST'' = Some ''localhost''"
  "environ example_world ''LLAMA_STACK_PORT'' = Some ''8080''"
  "environ example_world ''LLAMA_STACK_SECURE'' = None"
  "environ example_world ''DOCS_FOLDER'' = None"
  by (simp_all add: example_world_def example_environ_def)

lemma py_int_examples:
  "py_int ''0'' = Some 0" "py_int ''256'' = Some 256" "py_int ''8080'' = Some 8080"
  "py_int ''abc'' = None"
  by (simp_all add: py_int_defs)

lemma lower_false: "lower ''false'' = ''false''"
  by (simp add: lower_def lower_char_def)

lemma example_create_client:
  "create_client example_world ''localhost'' 8080 False =
     ([Print (MsgCreatingClient ''http://localhost:8080''), NewClient ''http://localhost:8080''],
      Inr example_client)"
  by (simp add: create_client_def example_world_def example_client_def str_int_def str_nat.simps
        char_of_eq_iff io_defs)

lemma example_get_embedding_model:
  "get_embedding_model example_world example_client ''granite-embedding-125m'' ''sentence-transformers''
     = ([ApiModelsList example_client], Inr example_model)"
  by (simp add: get_embedding_model_def example_world_def example_model_def io_defs)

lemma example_subscript:
  "subscript (model_metadata example_model) ''embedding_dimension'' = ([], Inr (VInt 768))"
  by (simp add: subscript_def example_model_def io_defs)

lemma example_register:
  "register_vector_db example_world example_client (Some example_model) ''milvus_db'' ''milvus'' =
     ([Print (MsgRegistering ''milvus_db'' ''granite-embedding-125m'' (VInt 768)),
       ApiRegister example_client ''milvus_db'' ''granite-embedding-125m'' ''milvus'',
       Print (MsgRegistered ''milvus_db'')], Inr ''milvus_db'')"
  by (simp add: register_vector_db_def Let_def example_model_def example_world_def subscript_def
        dict_get_def io_defs)

lemma example_load:
  "load_documents_from_folder example_world ''./docs'' [''.txt'', ''.md''] =
     ([FsExists ''./docs'', Print (MsgLoadingFrom ''./docs''), FsIterdir ''./docs'',
       FsIsFile ''docs/rules.TXT'', FsRead ''docs/rules.TXT'', FsStat ''docs/rules.TXT'',
       Print (MsgLoaded ''rules.TXT''),
       FsIsFile ''docs/locked.md'', FsRead ''docs/locked.md'',
       Print (MsgErrorReading ''docs/locked.md'' (OtherError 13)),
       FsIsFile ''docs/img.png'', FsIsFile ''docs/old.md'',
       Print (MsgLoadedCount 1)], Inr [example_document])"
  by (simp add: load_documents_from_folder_def example_world_def example_entries_def
        load_entry_def load_file_def get_mime_type_def mime_types_def
        lower_def lower_char_def char_of_eq_iff example_document_def io_defs)

lemma example_insert:
  "insert_documents example_world example_client [example_document] ''milvus_db'' 512 =
     ([ApiInsert example_client [example_document] ''milvus_db'' 512, Print (MsgInsertedCount 1)],
      Inr ())"
  by (simp add: insert_documents_def example_world_def io_defs)

lemma example_main_body:
  "main_body example_world =
     ([GetEnv ''EMBEDDING_MODEL'', GetEnv ''EMBEDDING_DIMENSION'', GetEnv ''EMBEDDING_MODEL_PROVIDER'',
       GetEnv ''CHUNK_SIZE_IN_TOKENS'', GetEnv ''LLAMA_STACK_HOST'', GetEnv ''LLAMA_STACK_PORT'',
       GetEnv ''LLAMA_STACK_SECURE'', Print MsgDebugHeader, Print (MsgDebugHost ''localhost''),
       Print (MsgDebugPort ''8080''), Print (MsgDebugSecure False), GetEnv ''DOCS_FOLDER'',
       Print (MsgCreatingClient ''http://localhost:8080''), NewClient ''http://localhost:8080'',
       Print (MsgConnected ''localhost'' ''8080''),
       ApiModelsList example_client,
       Print (MsgUsingModel ''granite-embedding-125m'' (VInt 768)),
       Print (MsgRegistering ''milvus_db'' ''granite-embedding-125m'' (VInt 768)),
       ApiRegister example_client ''milvus_db'' ''granite-embedding-125m'' ''milvus'',
       Print (MsgRegistered ''milvus_db''),
       FsExists ''./docs'', Print (MsgLoadingFrom ''./docs''), FsIterdir ''./docs'',
       FsIsFile ''docs/rules.TXT'', FsRead ''docs/rules.TXT'', FsStat ''docs/rules.TXT'',
       Print (MsgLoaded ''rules.TXT''),
       FsIsFile ''docs/locked.md'', FsRead ''docs/locked.md'',
       Print (MsgErrorReading ''docs/locked.md'' (OtherError 13)),
       FsIsFile ''docs/img.png'', FsIsFile ''docs/old.md'',
       Print (MsgLoadedCount 1),
       ApiInsert example_client [example_document] ''milvus_db'' 512, Print (MsgInsertedCount 1),
       Print (MsgDone ''milvus_db'' 256)], Inr ())"
proof -
  have m: "model_identifier example_model = ''granite-embedding-125m''"
    by (simp add: example_model_def)
  show ?thesis
    by (simp add: main_body_def getenv_def getenv_default_def example_env py_int_examples
          lower_false example_create_client example_get_embedding_model example_subscript
          example_register example_load example_insert m io_defs)
qed

lemma example_main:
  "main example_world None = (Print (MsgDelayInfo 0) # fst (main_body example_world), Inr ())"
  by (simp add: main_def main_delay_def py_int_examples example_main_body io_defs)


section \<open>Runs that fail\<close>





lemma main_delay_examples:
  "main_delay None = ([Print (MsgDelayInfo 0)], Inr 0)"
  "main_delay (Some ''2'') = ([Print (MsgDelayInfo 2)], Inr 2)"
  by (simp_all add: main_delay_def py_int_defs io_defs)


section \<open>The chunk size\<close>

text \<open>
  Claim C1, which says that the chunk size passed to the insertion call is the value of
  \<^verbatim>\<open>CHUNK_SIZE_IN_TOKENS\<close>, does not hold of the code: line 249 passes the literal 512.
  In the example deployment the variable is set to 256 and \<^verbatim>\<open>int\<close> reads it as 256;
  the run succeeds, and its one insertion call carries the chunk size 512.
\<close>

theorem chunk_size_not_passed:
  "environ example_world ''CHUNK_SIZE_IN_TOKENS'' = Some ''256''
   \<and> py_int ''256'' = Some 256
   \<and> outcome (main example_world None) = Inr ()
   \<and> filter is_api_call (trace (main example_world None)) =
       [ApiModelsList example_client,
        ApiRegister example_client ''milvus_db'' ''granite-embedding-125m'' ''milvus'',
        ApiInsert example_client [example_document] ''milvus_db'' 512]"
  by (simp add: example_env py_int_examples example_main example_main_body)


section \<open>Missing configuration\<close>






section \<open>The embedding dimension of the environment\<close>

lemma environ_irrelevant:
  "create_client (w\<lparr>environ := env\<rparr>) host port secure = create_client w host port secure"
  "get_embedding_model (w\<lparr>environ := env\<rparr>) c model_id provider = get_embedding_model w c model_id provider"
  "register_vector_db (w\<lparr>environ := env\<rparr>) c m vector_db_id provider_id =
     register_vector_db w c m vector_db_id provider_id"
  "load_documents_from_folder (w\<lparr>environ := env\<rparr>) folder exts = load_documents_from_folder w folder exts"
  "insert_documents (w\<lparr>environ := env\<rparr>) c docs vector_db_id chunk = insert_documents w c docs vector_db_id chunk"
  by (simp_all add: create_client_def get_embedding_model_def register_vector_db_def
        load_documents_from_folder_def insert_documents_def
        del: io_bind_Inr io_bind_Inl
        cong: if_cong option.case_cong py_value.case_cong)

lemma io_bind_call_Inr: "io_bind (call ev (Inr x)) f = io_bind (emit ev) (\<lambda>_. f x)"
  by (simp add: io_defs)

lemma main_body_dimension:
  "main_body (w\<lparr>environ := (environ w)(''EMBEDDING_DIMENSION'' \<mapsto> v)\<rparr>) =
   main_body (w\<lparr>environ := (environ w)(''EMBEDDING_DIMENSION'' \<mapsto> [])\<rparr>)"
  by (simp add: main_body_def getenv_def getenv_default_def environ_irrelevant io_bind_call_Inr
        del: io_bind_Inr io_bind_Inl
        cong: option.case_cong if_cong)

text \<open>
  Claim C8. Two runs of \<open>main\<close> in worlds that differ only in the value to which
  \<^verbatim>\<open>EMBEDDING_DIMENSION\<close> is set, with the same argument, are equal: the same events in
  the same order (every read, every line printed, every call with its arguments) and the
  same outcome. The value is read and tested for presence, and nothing depends on it.
\<close>

theorem embedding_dimension_unused:
  "main (w\<lparr>environ := (environ w)(''EMBEDDING_DIMENSION'' \<mapsto> v1)\<rparr>) arg =
   main (w\<lparr>environ := (environ w)(''EMBEDDING_DIMENSION'' \<mapsto> v2)\<rparr>) arg"
  by (simp add: main_def main_body_dimension [of w v1] main_body_dimension [of w v2])


section \<open>The order of the steps\<close>

lemma actions_simps [simp]:
  "actions [] = []"
  "actions (e # t) = (if step_of e = None then actions t else e # actions t)"
  "actions (t @ t') = actions t @ actions t'"
  by (simp_all add: actions_def)

lemma steps_actions: "steps t = remdups_adj (map (the \<circ> step_of) (actions t))"
  by (simp add: steps_def actions_def map_filter_def)

lemma remdups_adj_replicate:
  "0 < n \<Longrightarrow> remdups_adj (replicate n p @ ys) = remdups_adj (p # ys)"
proof (induction n)
  case 0
  then show ?case by simp
next
  case (Suc n)
  then show ?case by (cases n) simp_all
qed

lemma io_bind_Inr_iff:
  "io_bind m f = (t, Inr y) \<longleftrightarrow> (\<exists>t1 x t2. m = (t1, Inr x) \<and> f x = (t2, Inr y) \<and> t = t1 @ t2)"
  by (cases m; cases "snd m"; cases "f (projr (snd m))") (auto simp: io_bind_def)

lemma io_Inr_iffs:
  "call ev answer = (t, Inr x) \<longleftrightarrow> t = [ev] \<and> answer = Inr x"
  "emit ev = (t, Inr u) \<longleftrightarrow> t = [ev]"
  "io_return v = (t, Inr x) \<longleftrightarrow> t = [] \<and> x = v"
  "io_raise e = (t, Inr x) \<longleftrightarrow> False"
  "(case opt of None \<Rightarrow> io_raise e | Some v \<Rightarrow> f v) = (t, Inr y) \<longleftrightarrow> (\<exists>v. opt = Some v \<and> f v = (t, Inr y))"
  "(if b then io_raise e else m) = (t, Inr y) \<longleftrightarrow> \<not> b \<and> m = (t, Inr y)"
  by (auto simp: io_defs split: option.splits)

lemma create_client_Inr:
  "create_client w host port secure = (t, Inr c) \<Longrightarrow> actions t = [NewClient (base_url c)]"
  by (auto simp: create_client_def Let_def io_bind_Inr_iff io_Inr_iffs
           simp del: io_bind_Inr io_bind_Inl split: if_splits)

lemma get_embedding_model_Inr:
  "get_embedding_model w c model_id provider = (t, Inr m) \<Longrightarrow> actions t = [ApiModelsList c]"
  by (auto simp: get_embedding_model_def io_bind_Inr_iff io_Inr_iffs
           simp del: io_bind_Inr io_bind_Inl split: if_splits option.splits)

lemma subscript_trace: "subscript v key = (t, r) \<Longrightarrow> t = []"
  by (auto simp: subscript_def io_defs split: py_value.splits option.splits)

lemma register_vector_db_Inr:
  "register_vector_db w c (Some m) vector_db_id provider_id = (t, Inr r) \<Longrightarrow>
     r = vector_db_id \<and> actions t = [ApiRegister c vector_db_id (model_identifier m) provider_id]"
  by (auto simp: register_vector_db_def Let_def io_bind_Inr_iff io_Inr_iffs
           simp del: io_bind_Inr io_bind_Inl
           dest!: subscript_trace split: if_splits py_value.splits)

lemma insert_documents_Inr:
  "insert_documents w c docs vector_db_id chunk = (t, Inr r) \<Longrightarrow>
     actions t = (if docs = [] then [] else [ApiInsert c docs vector_db_id chunk])"
  by (auto simp: insert_documents_def io_bind_Inr_iff io_Inr_iffs
           simp del: io_bind_Inr io_bind_Inl split: if_splits)

lemma main_body_actions:
  assumes "main_body w = (t, Inr ())"
  shows "\<exists>c model_id docs chunk.
     outcome (load_documents_from_folder w
        (case environ w ''DOCS_FOLDER'' of None \<Rightarrow> ''./docs'' | Some v \<Rightarrow> v) [''.txt'', ''.md''])
       = Inr docs
     \<and> actions t =
        map GetEnv [''EMBEDDING_MODEL'', ''EMBEDDING_DIMENSION'', ''EMBEDDING_MODEL_PROVIDER'',
                    ''CHUNK_SIZE_IN_TOKENS'', ''LLAMA_STACK_HOST'', ''LLAMA_STACK_PORT'',
                    ''LLAMA_STACK_SECURE'', ''DOCS_FOLDER'']
        @ [NewClient (base_url c), ApiModelsList c,
           ApiRegister c ''milvus_db'' model_id ''milvus'']
        @ actions (trace (load_documents_from_folder w
             (case environ w ''DOCS_FOLDER'' of None \<Rightarrow> ''./docs'' | Some v \<Rightarrow> v) [''.txt'', ''.md'']))
        @ (if docs = [] then [] else [ApiInsert c docs ''milvus_db'' 512])
        @ [Print (MsgDone ''milvus_db'' chunk)]"
  using assms
  apply (clarsimp simp: main_body_def getenv_def getenv_default_def Let_def io_bind_Inr_iff io_Inr_iffs
           simp del: io_bind_Inr io_bind_Inl
           dest!: subscript_trace)
  apply (auto dest!: create_client_Inr get_embedding_model_Inr register_vector_db_Inr insert_documents_Inr)
  apply blast
  done

lemma load_entry_scan:
  "\<forall>e\<in>set (trace (load_entry exts entry docs)). (\<forall>y. step_of e = Some y \<longrightarrow> y = ScanFolder)"
  by (cases "entry_read entry"; cases "entry_size entry")
     (auto simp: load_entry_def load_file_def Let_def io_defs)

lemma load_entries_scan:
  "\<forall>e\<in>set (trace (load_entries exts es docs)). (\<forall>y. step_of e = Some y \<longrightarrow> y = ScanFolder)"
proof (induction es arbitrary: docs)
  case Nil
  show ?case by simp
next
  case (Cons entry es)
  show ?case
    using load_entry_scan [of exts entry docs] Cons.IH
    by (simp add: trace_io_bind load_entry_outcome) blast
qed

lemma load_documents_from_folder_scan_steps:
  "\<exists>n. map (the \<circ> step_of) (actions (trace (load_documents_from_folder w folder exts)))
         = replicate (Suc n) ScanFolder"
proof -
  let ?t = "trace (load_documents_from_folder w folder exts)"
  have all: "\<forall>e\<in>set ?t. (\<forall>y. step_of e = Some y \<longrightarrow> y = ScanFolder)"
    using load_entries_scan [of exts _ "[]"]
    by (auto simp: load_documents_from_folder_def trace_io_bind outcome_io_bind
          split: sum.splits)
  have first: "FsExists folder \<in> set (actions ?t)"
    by (simp add: load_documents_from_folder_def trace_io_bind)
  have "map (the \<circ> step_of) (actions ?t) = replicate (length (actions ?t)) ScanFolder"
    using all by (intro replicate_eqI) (auto simp: actions_def)
  moreover have "0 < length (actions ?t)"
    using first by (cases "actions ?t") auto
  ultimately show ?thesis
    by (metis Suc_pred)
qed

lemma remdups_adj_Cons_replicate [simp]:
  "remdups_adj (p # replicate n p @ ys) = remdups_adj (p # ys)"
  by (induction n) simp_all

text \<open>
  Claim C7, as the code has it. In every run of \<open>main\<close> that succeeds, the events that
  do a step are, in this order: the eight reads of the environment, the construction of
  the client, the listing of the models, the registration of the database, the accesses
  to the folder, the insertion call when at least one document was loaded (with none,
  \<open>insert_documents\<close> makes no call), and the report. So the steps are the
  configuration, the client, the model, the database, the scan, the insertion when
  there is a document, and the report, each once and none before an earlier one.
\<close>

theorem main_steps_in_order:
  assumes "outcome (main w arg) = Inr ()"
  shows "\<exists>c model_id docs chunk.
     outcome (load_documents_from_folder w
        (case environ w ''DOCS_FOLDER'' of None \<Rightarrow> ''./docs'' | Some v \<Rightarrow> v) [''.txt'', ''.md''])
       = Inr docs
     \<and> actions (trace (main w arg)) =
        map GetEnv [''EMBEDDING_MODEL'', ''EMBEDDING_DIMENSION'', ''EMBEDDING_MODEL_PROVIDER'',
                    ''CHUNK_SIZE_IN_TOKENS'', ''LLAMA_STACK_HOST'', ''LLAMA_STACK_PORT'',
                    ''LLAMA_STACK_SECURE'', ''DOCS_FOLDER'']
        @ [NewClient (base_url c), ApiModelsList c,
           ApiRegister c ''milvus_db'' model_id ''milvus'']
        @ actions (trace (load_documents_from_folder w
             (case environ w ''DOCS_FOLDER'' of None \<Rightarrow> ''./docs'' | Some v \<Rightarrow> v) [''.txt'', ''.md'']))
        @ (if docs = [] then [] else [ApiInsert c docs ''milvus_db'' 512])
        @ [Print (MsgDone ''milvus_db'' chunk)]
     \<and> steps (trace (main w arg)) =
        [ReadConfig, ConstructClient, ResolveModel, RegisterDatabase, ScanFolder]
        @ (if docs = [] then [] else [UploadDocuments]) @ [ReportResult]"
proof -
  let ?scan = "trace (load_documents_from_folder w
        (case environ w ''DOCS_FOLDER'' of None \<Rightarrow> ''./docs'' | Some v \<Rightarrow> v) [''.txt'', ''.md''])"
  obtain t0 d where t0: "t0 = [Print (MsgDelayInfo d)]
        \<or> (\<exists>s e. t0 = [Print (MsgInvalidDelay s e), Print (MsgDelayInfo d)])"
    and m: "main w arg =
         (case main_body w of
            (t, Inl e) \<Rightarrow> (t0 @ t @ [Print (MsgError e)]
                             @ (if 0 < d then [Print (MsgDelaying d), Sleep d] else []), Inl e)
          | (t, Inr x) \<Rightarrow> (t0 @ t, Inr x))"
    using main_run by blast
  obtain t r where b: "main_body w = (t, r)"
    by (cases "main_body w")
  from assms m b have r: "r = Inr ()" and tr: "trace (main w arg) = t0 @ t"
    by (cases r; simp)+
  have a0: "actions t0 = []"
    using t0 by auto
  obtain c model_id docs chunk where
    docs: "outcome (load_documents_from_folder w
        (case environ w ''DOCS_FOLDER'' of None \<Rightarrow> ''./docs'' | Some v \<Rightarrow> v) [''.txt'', ''.md''])
       = Inr docs"
    and acts: "actions t =
        map GetEnv [''EMBEDDING_MODEL'', ''EMBEDDING_DIMENSION'', ''EMBEDDING_MODEL_PROVIDER'',
                    ''CHUNK_SIZE_IN_TOKENS'', ''LLAMA_STACK_HOST'', ''LLAMA_STACK_PORT'',
                    ''LLAMA_STACK_SECURE'', ''DOCS_FOLDER'']
        @ [NewClient (base_url c), ApiModelsList c,
           ApiRegister c ''milvus_db'' model_id ''milvus'']
        @ actions ?scan
        @ (if docs = [] then [] else [ApiInsert c docs ''milvus_db'' 512])
        @ [Print (MsgDone ''milvus_db'' chunk)]"
    using main_body_actions [of w t] b r by blast
  obtain n where scan: "map (the \<circ> step_of) (actions ?scan) = replicate (Suc n) ScanFolder"
    using load_documents_from_folder_scan_steps by blast
  have st: "steps (trace (main w arg)) =
        [ReadConfig, ConstructClient, ResolveModel, RegisterDatabase, ScanFolder]
        @ (if docs = [] then [] else [UploadDocuments]) @ [ReportResult]"
    unfolding steps_actions tr
    by (simp add: a0 acts scan)
  from docs acts a0 st show ?thesis
    unfolding tr by (intro exI [of _ c] exI [of _ model_id] exI [of _ docs] exI [of _ chunk]) simp
qed

theorem main_steps_in_order_witness:
  "outcome (main example_world None) = Inr ()
   \<and> steps (trace (main example_world None)) =
       [ReadConfig, ConstructClient, ResolveModel, RegisterDatabase, ScanFolder,
        UploadDocuments, ReportResult]"
proof -
  have ok: "outcome (main example_world None) = Inr ()"
    by (simp add: example_main)
  show ?thesis
    using ok main_steps_in_order [OF ok] by (auto simp: example_env example_load)
qed

lemma path_exists_irrelevant:
  "environ (w\<lparr>path_exists := f\<rparr>) = environ w"
  "create_client (w\<lparr>path_exists := f\<rparr>) host port secure = create_client w host port secure"
  "get_embedding_model (w\<lparr>path_exists := f\<rparr>) c model_id provider = get_embedding_model w c model_id provider"
  "register_vector_db (w\<lparr>path_exists := f\<rparr>) c m vector_db_id provider_id =
     register_vector_db w c m vector_db_id provider_id"
  "insert_documents (w\<lparr>path_exists := f\<rparr>) c docs vector_db_id chunk = insert_documents w c docs vector_db_id chunk"
  by (simp_all add: create_client_def get_embedding_model_def register_vector_db_def
        insert_documents_def
        del: io_bind_Inr io_bind_Inl
        cong: if_cong option.case_cong py_value.case_cong)

lemma example_no_folder_main_body:
  "main_body example_world_no_folder =
     ([GetEnv ''EMBEDDING_MODEL'', GetEnv ''EMBEDDING_DIMENSION'', GetEnv ''EMBEDDING_MODEL_PROVIDER'',
       GetEnv ''CHUNK_SIZE_IN_TOKENS'', GetEnv ''LLAMA_STACK_HOST'', GetEnv ''LLAMA_STACK_PORT'',
       GetEnv ''LLAMA_STACK_SECURE'', Print MsgDebugHeader, Print (MsgDebugHost ''localhost''),
       Print (MsgDebugPort ''8080''), Print (MsgDebugSecure False), GetEnv ''DOCS_FOLDER'',
       Print (MsgCreatingClient ''http://localhost:8080''), NewClient ''http://localhost:8080'',
       Print (MsgConnected ''localhost'' ''8080''),
       ApiModelsList example_client,
       Print (MsgUsingModel ''granite-embedding-125m'' (VInt 768)),
       Print (MsgRegistering ''milvus_db'' ''granite-embedding-125m'' (VInt 768)),
       ApiRegister example_client ''milvus_db'' ''granite-embedding-125m'' ''milvus'',
       Print (MsgRegistered ''milvus_db''),
       FsExists ''./docs'', Print (MsgFolderMissing ''./docs''),
       Print MsgNoDocuments,
       Print (MsgDone ''milvus_db'' 256)], Inr ())"
proof -
  have m: "model_identifier example_model = ''granite-embedding-125m''"
    by (simp add: example_model_def)
  have l: "load_documents_from_folder example_world_no_folder ''./docs'' [''.txt'', ''.md''] =
             ([FsExists ''./docs'', Print (MsgFolderMissing ''./docs'')], Inr [])"
    by (simp add: load_documents_from_folder_def example_world_no_folder_def io_defs)
  have i: "insert_documents example_world example_client [] ''milvus_db'' 512 =
             ([Print MsgNoDocuments], Inr ())"
    by (simp add: insert_documents_def io_defs)
  have e: "environ example_world_no_folder = environ example_world"
    by (simp add: example_world_no_folder_def)
  have f: "create_client example_world_no_folder host port secure =
             create_client example_world host port secure"
     "get_embedding_model example_world_no_folder c model_id provider =
             get_embedding_model example_world c model_id provider"
     "register_vector_db example_world_no_folder c mo vector_db_id provider_id =
             register_vector_db example_world c mo vector_db_id provider_id"
     "insert_documents example_world_no_folder c docs vector_db_id chunk =
             insert_documents example_world c docs vector_db_id chunk"
    for host port secure c model_id provider mo vector_db_id provider_id docs chunk
    by (simp_all add: example_world_no_folder_def path_exists_irrelevant)
  show ?thesis
    by (simp add: main_body_def getenv_def getenv_default_def e f l i example_env py_int_examples
          lower_false example_create_client example_get_embedding_model example_subscript
          example_register m io_defs)
qed

text \<open>
  Claim C7 as it was stated, that in every successful run the documents are inserted,
  fails where the documents folder does not exist: the run succeeds, no document is
  loaded, and no insertion call is made.
\<close>

theorem main_steps_counterexample:
  "outcome (main example_world_no_folder None) = Inr ()
   \<and> filter is_api_call (trace (main example_world_no_folder None)) =
       [ApiModelsList example_client,
        ApiRegister example_client ''milvus_db'' ''granite-embedding-125m'' ''milvus'']
   \<and> steps (trace (main example_world_no_folder None)) =
       [ReadConfig, ConstructClient, ResolveModel, RegisterDatabase, ScanFolder, ReportResult]"
  by (simp add: main_def main_delay_examples example_no_folder_main_body steps_actions io_defs)

end
